theory Spec2Isabelle
  imports Complex_Main
begin

section \<open>Python values, errors and effects\<close>

text \<open>
  Event payloads reach the rules as untyped Python objects (\<open>Any\<close>): dictionaries,
  attribute-style objects, or anything else.  The rule code dispatches on the shape, so
  the payload is modelled as a small universe of Python values.  \<open>PDict\<close> is a \<open>dict\<close>
  with string keys, \<open>PObj\<close> an object whose attributes are listed (an object that is not
  a dict, has no \<open>get\<close> method and no \<open>__getitem__\<close>).  Numbers in the payloads the
  rules read are contract counts, modelled as Python's unbounded integers.
\<close>

datatype pyval =
    PNone
  | PBool bool
  | PInt int
  | PStr string
  | PDict "(string \<times> pyval) list"
  | PObj "(string \<times> pyval) list"

datatype py_error = KeyError | TypeError | AttributeError | ValueError

datatype level = DEBUG | INFO | WARNING | ERROR

text \<open>
  What a handler does to the outside world, in order: log records (level and the fixed
  part of the message; interpolated values are left out) and the awaited calls on the
  trading suite.
\<close>

datatype effect =
    Log level string
  | GetAllPositions
  | GetCurrentPrice
  | ClosePositionDirect pyval
  | Sleep

text \<open>Python truthiness (\<open>bool(v)\<close>).\<close>

fun truthy :: "pyval \<Rightarrow> bool" where
  "truthy PNone = False"
| "truthy (PBool b) = b"
| "truthy (PInt n) = (n \<noteq> 0)"
| "truthy (PStr s) = (s \<noteq> [])"
| "truthy (PDict d) = (d \<noteq> [])"
| "truthy (PObj a) = True"

text \<open>\<open>a or b\<close>\<close>

definition py_or :: "pyval \<Rightarrow> pyval \<Rightarrow> pyval" where
  "py_or a b = (if truthy a then a else b)"

text \<open>\<open>isinstance(v, dict)\<close>\<close>

fun is_dict :: "pyval \<Rightarrow> bool" where
  "is_dict (PDict d) = True"
| "is_dict v = False"

text \<open>\<open>key in d\<close> for a dict \<open>d\<close>.\<close>

fun has_key :: "pyval \<Rightarrow> string \<Rightarrow> bool" where
  "has_key (PDict d) k = (map_of d k \<noteq> None)"
| "has_key v k = False"

text \<open>
  \<open>v.get(key, default)\<close>: the dict method.  On a value without a \<open>get\<close> attribute
  Python raises \<open>AttributeError\<close>.
\<close>

fun py_get :: "pyval \<Rightarrow> string \<Rightarrow> pyval \<Rightarrow> py_error + pyval" where
  "py_get (PDict d) k dflt = Inr (case map_of d k of Some v \<Rightarrow> v | None \<Rightarrow> dflt)"
| "py_get v k dflt = Inl AttributeError"

text \<open>\<open>getattr(v, key, default)\<close>: never raises.\<close>

fun py_getattr :: "pyval \<Rightarrow> string \<Rightarrow> pyval \<Rightarrow> pyval" where
  "py_getattr (PObj a) k dflt = (case map_of a k of Some v \<Rightarrow> v | None \<Rightarrow> dflt)"
| "py_getattr v k dflt = dflt"

text \<open>
  \<open>v[key] if hasattr(v, '__getitem__') else getattr(v, key, default)\<close>: a dict raises
  \<open>KeyError\<close> on a missing key, a string has \<open>__getitem__\<close> but refuses a string index.
\<close>

fun item_or_attr :: "pyval \<Rightarrow> string \<Rightarrow> pyval \<Rightarrow> py_error + pyval" where
  "item_or_attr (PDict d) k dflt = (case map_of d k of Some v \<Rightarrow> Inr v | None \<Rightarrow> Inl KeyError)"
| "item_or_attr (PStr s) k dflt = Inl TypeError"
| "item_or_attr v k dflt = Inr (py_getattr v k dflt)"

text \<open>\<open>abs(v)\<close>: defined on numbers (\<open>bool\<close> is a subclass of \<open>int\<close>), \<open>TypeError\<close> otherwise.\<close>

fun py_abs :: "pyval \<Rightarrow> py_error + int" where
  "py_abs (PInt n) = Inr \<bar>n\<bar>"
| "py_abs (PBool b) = Inr (if b then 1 else 0)"
| "py_abs v = Inl TypeError"

section \<open>The max-contracts rule (rules/max_contracts_rule.py)\<close>

record max_contracts_config =
  enabled :: bool
  max_size :: int
  severity :: string
  auto_flatten :: bool

record max_contracts_rule =
  config :: max_contracts_config
  breach_count :: nat

text \<open>\<open>MaxContractsRule.__init__\<close>\<close>

definition new_rule :: "max_contracts_config \<Rightarrow> max_contracts_rule" where
  "new_rule c = \<lparr>config = c, breach_count = 0\<rparr>"

record position_data =
  pd_contract_id :: pyval
  pd_account_id :: pyval
  pd_size :: pyval
  pd_event :: pyval

text \<open>
  The reply of \<open>trading_suite["MNQ"].positions.close_position_direct(contract_id)\<close>:
  the call (or the subscript before it) raises, or it returns a value.
\<close>

datatype close_reply = CloseRaises | CloseReturns pyval

record trading_suite =
  close_position_direct :: "pyval \<Rightarrow> close_reply"

text \<open>
  \<open>_extract_position_data\<close>, first branch: the enriched order-filled event, with
  \<open>cur\<close> the (truthy) value under \<open>current_position\<close>.
\<close>

definition extract_enriched :: "pyval \<Rightarrow> pyval \<Rightarrow> py_error + position_data" where
  "extract_enriched ev cur =
     (case py_get ev ''order_event'' (PDict []) of
        Inl e \<Rightarrow> Inl e
      | Inr order_event \<Rightarrow>
     (case py_get order_event ''contractId'' PNone of
        Inl e \<Rightarrow> Inl e
      | Inr c1 \<Rightarrow>
     (case (if truthy c1 then Inr c1
            else (case py_get order_event ''contract_id'' PNone of
                    Inl e \<Rightarrow> Inl e
                  | Inr c2 \<Rightarrow>
                      if truthy c2 then Inr c2
                      else (case item_or_attr cur ''contractId'' (PStr ''unknown'') of
                              Inl e \<Rightarrow> Inl e
                            | Inr c3 \<Rightarrow> Inr (py_or c3 (PStr ''unknown''))))) of
        Inl e \<Rightarrow> Inl e
      | Inr contract_id \<Rightarrow>
     (case py_get order_event ''accountId'' PNone of
        Inl e \<Rightarrow> Inl e
      | Inr a1 \<Rightarrow>
     (case (if truthy a1 then Inr a1
            else (case py_get order_event ''account_id'' PNone of
                    Inl e \<Rightarrow> Inl e
                  | Inr a2 \<Rightarrow> Inr (py_or a2 (PStr ''unknown'')))) of
        Inl e \<Rightarrow> Inl e
      | Inr account_id \<Rightarrow>
     (case item_or_attr cur ''size'' (PInt 0) of
        Inl e \<Rightarrow> Inl e
      | Inr sz \<Rightarrow>
     (case py_abs sz of
        Inl e \<Rightarrow> Inl e
      | Inr n \<Rightarrow>
          Inr \<lparr>pd_contract_id = contract_id, pd_account_id = account_id,
               pd_size = PInt n, pd_event = ev\<rparr>)))))))"

text \<open>\<open>_extract_position_data\<close>, the regular position-update shapes (nothing here raises).\<close>

definition extract_regular :: "pyval \<Rightarrow> position_data" where
  "extract_regular ev =
     (case ev of
        PDict d \<Rightarrow>
          (let g = (\<lambda>k dflt. case map_of d k of Some v \<Rightarrow> v | None \<Rightarrow> dflt);
               position = py_or (g ''position'' PNone) (py_or (g ''new_position'' PNone) ev);
               contract_id = py_or (g ''contractId'' PNone) (g ''contract_id'' (PStr ''unknown''));
               account_id = py_or (g ''accountId'' PNone) (g ''account_id'' (PStr ''unknown''));
               sz = (case position of
                       PDict p \<Rightarrow> (case map_of p ''size'' of Some v \<Rightarrow> v | None \<Rightarrow> PInt 0)
                     | _ \<Rightarrow> py_getattr position ''size'' (PInt 0))
           in \<lparr>pd_contract_id = contract_id, pd_account_id = account_id,
                pd_size = sz, pd_event = ev\<rparr>)
      | _ \<Rightarrow>
          (let position = py_or (py_getattr ev ''position'' PNone)
                            (py_or (py_getattr ev ''new_position'' PNone) ev);
               contract_id = py_or (py_getattr ev ''contractId'' PNone)
                               (py_getattr ev ''contract_id'' (PStr ''unknown''));
               account_id = py_or (py_getattr ev ''accountId'' PNone)
                              (py_getattr ev ''account_id'' (PStr ''unknown''));
               sz = py_getattr position ''size'' (PInt 0)
           in \<lparr>pd_contract_id = contract_id, pd_account_id = account_id,
                pd_size = sz, pd_event = ev\<rparr>))"

text \<open>
  \<open>MaxContractsRule._extract_position_data\<close>: the result (\<open>None\<close> after a caught
  exception) and the log records written.
\<close>

definition extract_position_data :: "pyval \<Rightarrow> position_data option \<times> effect list" where
  "extract_position_data ev =
     (if is_dict ev \<and> has_key ev ''current_position''
         \<and> truthy (case py_get ev ''current_position'' PNone of Inr c \<Rightarrow> c | Inl e \<Rightarrow> PNone)
      then (case extract_enriched ev
                   (case py_get ev ''current_position'' PNone of Inr c \<Rightarrow> c | Inl e \<Rightarrow> PNone) of
              Inl e \<Rightarrow> (None, [Log ERROR ''Failed to extract position data''])
            | Inr pd \<Rightarrow> (Some pd, []))
      else (Some (extract_regular ev), []))"

text \<open>\<open>MaxContractsRule._log_breach\<close>\<close>

definition log_breach :: "max_contracts_rule \<Rightarrow> position_data \<Rightarrow> effect list" where
  "log_breach r pd = [Log WARNING ''MAX_CONTRACTS_BREACH'']"

text \<open>\<open>MaxContractsRule._auto_flatten\<close>\<close>

definition auto_flatten_position :: "position_data \<Rightarrow> trading_suite option \<Rightarrow> effect list" where
  "auto_flatten_position pd ts =
     (case ts of
        None \<Rightarrow> [Log WARNING ''No TradingSuite provided for auto-flatten'']
      | Some suite \<Rightarrow>
          [Log INFO ''AUTO-FLATTENING breach position'', ClosePositionDirect (pd_contract_id pd)] @
          (case close_position_direct suite (pd_contract_id pd) of
             CloseRaises \<Rightarrow> [Log ERROR ''Error during auto-flatten'']
           | CloseReturns res \<Rightarrow>
               if \<not> truthy res then [Log ERROR ''Failed to auto-flatten'']
               else (case py_get res ''success'' PNone of
                       Inl e \<Rightarrow> [Log ERROR ''Error during auto-flatten'']
                     | Inr ok \<Rightarrow>
                         if truthy ok then [Log INFO ''Auto-flattened breaching position'']
                         else [Log ERROR ''Failed to auto-flatten''])))"

text \<open>\<open>MaxContractsRule._handle_breach\<close>\<close>

definition handle_breach ::
  "max_contracts_rule \<Rightarrow> position_data \<Rightarrow> trading_suite option \<Rightarrow> max_contracts_rule \<times> effect list" where
  "handle_breach r pd ts =
     (let r' = r\<lparr>breach_count := breach_count r + 1\<rparr>
      in (r', log_breach r' pd @
              (if auto_flatten (config r') then auto_flatten_position pd ts else [])))"

text \<open>
  \<open>MaxContractsRule.check\<close>: \<open>True\<close> is "within limits", \<open>False\<close> a breach.  Returns the
  verdict, the rule after the check and the effects.
\<close>

definition check ::
  "max_contracts_rule \<Rightarrow> pyval \<Rightarrow> trading_suite option \<Rightarrow> bool \<times> max_contracts_rule \<times> effect list" where
  "check r ev ts =
     (if \<not> enabled (config r) then (True, r, [Log DEBUG ''MaxContractsRule: disabled, skipping check''])
      else
        (let (pdo, fx) = extract_position_data ev;
             fx0 = Log DEBUG ''MaxContractsRule: checking position against limit'' # fx
         in case pdo of
              None \<Rightarrow> (True, r, fx0 @ [Log WARNING ''Could not extract position data from event''])
            | Some pd \<Rightarrow>
                (case py_abs (pd_size pd) of
                   Inl e \<Rightarrow> (True, r, fx0 @ [Log ERROR ''Error in MaxContractsRule.check''])
                 | Inr current_size \<Rightarrow>
                     if current_size > max_size (config r)
                     then (let (r', fx1) = handle_breach r pd ts in (False, r', fx0 @ fx1))
                     else (True, r, fx0))))"

text \<open>\<open>MaxContractsRule.get_stats\<close>\<close>

record rule_stats =
  rs_rule_name :: string
  rs_enabled :: bool
  rs_max_size :: int
  rs_severity :: string
  rs_auto_flatten :: bool
  rs_breach_count :: nat

definition get_stats :: "max_contracts_rule \<Rightarrow> rule_stats" where
  "get_stats r =
     \<lparr>rs_rule_name = ''max_contracts'', rs_enabled = enabled (config r),
      rs_max_size = max_size (config r), rs_severity = severity (config r),
      rs_auto_flatten = auto_flatten (config r), rs_breach_count = breach_count r\<rparr>"

section \<open>The rule engine (rules/rule_engine.py)\<close>

text \<open>
  The configuration document, as \<open>json.load\<close> returns it.  Every key may be missing
  (\<open>None\<close>); a value that is present has the type the engine reads it at: an object
  for \<open>rules\<close>, \<open>global\<close> and \<open>max_contracts\<close>, and the types of the fields of
  \<open>MaxContractsConfig\<close> for the entries of the rule.
\<close>

record max_contracts_json =
  mc_enabled :: "bool option"
  mc_max_size :: "int option"
  mc_severity :: "string option"
  mc_auto_flatten :: "bool option"

record rules_json =
  rj_max_contracts :: "max_contracts_json option"

record global_json =
  gj_dry_run :: "bool option"

record config_json =
  cj_rules :: "rules_json option"
  cj_global :: "global_json option"

text \<open>
  What \<open>_load_config\<close> finds at \<open>config_path\<close>: no file, a file that cannot be opened or
  parsed (\<open>open\<close> or \<open>json.load\<close> raises), or a parsed document.
\<close>

datatype config_file = FileMissing | FileMalformed | FileContent config_json

record engine_stats =
  events_processed :: nat
  rules_checked :: nat
  breaches_detected :: nat

record rule_engine =
  config_path :: string
  eng_config :: config_json
  rules :: "max_contracts_rule list"
  stats :: engine_stats

text \<open>\<open>{}\<close>\<close>

definition empty_config :: config_json where
  "empty_config = \<lparr>cj_rules = None, cj_global = None\<rparr>"

text \<open>\<open>{"rules": {}, "global": {"dry_run": True}}\<close>\<close>

definition default_config :: config_json where
  "default_config =
     \<lparr>cj_rules = Some \<lparr>rj_max_contracts = None\<rparr>,
      cj_global = Some \<lparr>gj_dry_run = Some True\<rparr>\<rparr>"

definition zero_stats :: engine_stats where
  "zero_stats = \<lparr>events_processed = 0, rules_checked = 0, breaches_detected = 0\<rparr>"

text \<open>\<open>RuleEngine.__init__\<close>\<close>

definition new_engine :: "string option \<Rightarrow> rule_engine" where
  "new_engine path =
     \<lparr>config_path = (case path of Some p \<Rightarrow> if p \<noteq> [] then p else ''config/risk_config.json''
                                 | None \<Rightarrow> ''config/risk_config.json''),
      eng_config = empty_config, rules = [], stats = zero_stats\<rparr>"

text \<open>
  \<open>RuleEngine._load_config\<close>: the whole body is inside \<open>try ... except Exception\<close>, so
  the model has no error result.
\<close>

definition load_config :: "config_file \<Rightarrow> rule_engine \<Rightarrow> rule_engine \<times> effect list" where
  "load_config file e =
     (case file of
        FileMissing \<Rightarrow>
          (e\<lparr>eng_config := default_config\<rparr>, [Log WARNING ''Config file not found, using defaults''])
      | FileMalformed \<Rightarrow>
          (e\<lparr>eng_config := default_config\<rparr>, [Log ERROR ''Failed to load config''])
      | FileContent c \<Rightarrow>
          (e\<lparr>eng_config := c\<rparr>, [Log INFO ''Loaded risk config'']))"

text \<open>
  \<open>RuleEngine._initialize_rules\<close>: appends to \<open>self.rules\<close>.  The subscripts
  \<open>["max_size"]\<close> and \<open>["severity"]\<close> raise \<open>KeyError\<close> on a missing key, and nothing
  here catches it.  Returns the exception raised, if any, the engine and the effects.
\<close>

definition initialize_rules :: "rule_engine \<Rightarrow> py_error option \<times> rule_engine \<times> effect list" where
  "initialize_rules e =
     (let rules_config = (case cj_rules (eng_config e) of
                            Some r \<Rightarrow> r | None \<Rightarrow> \<lparr>rj_max_contracts = None\<rparr>);
          mc = (case rj_max_contracts rules_config of
                  Some m \<Rightarrow> m
                | None \<Rightarrow> \<lparr>mc_enabled = None, mc_max_size = None,
                            mc_severity = None, mc_auto_flatten = None\<rparr>)
      in if (case mc_enabled mc of Some b \<Rightarrow> b | None \<Rightarrow> False)
         then (case mc_max_size mc of
                 None \<Rightarrow> (Some KeyError, e, [])
               | Some ms \<Rightarrow>
                   (case mc_severity mc of
                      None \<Rightarrow> (Some KeyError, e, [])
                    | Some sev \<Rightarrow>
                        (let max_contracts_config =
                               \<lparr>enabled = (case mc_enabled mc of Some b \<Rightarrow> b | None \<Rightarrow> False),
                                max_size = ms, severity = sev,
                                auto_flatten = (case mc_auto_flatten mc of
                                                  Some b \<Rightarrow> b | None \<Rightarrow> False)\<rparr>;
                             rule = new_rule max_contracts_config
                         in (None, e\<lparr>rules := rules e @ [rule]\<rparr>,
                             [Log INFO ''Enabled MaxContractsRule'']))))
         else (None, e, []))"

text \<open>\<open>RuleEngine.initialize\<close>\<close>

definition initialize :: "config_file \<Rightarrow> rule_engine \<Rightarrow> py_error option \<times> rule_engine \<times> effect list" where
  "initialize file e =
     (let (e1, fx1) = load_config file e;
          (err, e2, fx2) = initialize_rules e1
      in case err of
           Some x \<Rightarrow> (Some x, e2, fx1 @ fx2)
         | None \<Rightarrow> (None, e2, fx1 @ fx2 @ [Log INFO ''RuleEngine initialized'']))"

text \<open>\<open>RuleEngine.reload_config\<close>\<close>

definition reload_config :: "config_file \<Rightarrow> rule_engine \<Rightarrow> py_error option \<times> rule_engine \<times> effect list" where
  "reload_config file e =
     (let (e1, fx1) = load_config file e;
          (err, e2, fx2) = initialize_rules e1
      in (err, e2, Log INFO ''Reloading risk configuration...'' # fx1 @ fx2))"

record breach_info =
  bi_rule :: string
  bi_rule_config :: rule_stats

record action_taken =
  at_rule :: string
  at_action :: string

record results =
  res_event_type :: string
  res_rules_checked :: nat
  res_breaches :: "breach_info list"
  res_actions_taken :: "action_taken list"

text \<open>
  One iteration of the loop \<open>for rule in self.rules\<close> of \<open>process_event\<close>.  The loop
  state is the engine's counters, the result being built and the effects so far.
  \<open>check\<close> catches every exception itself, so the loop's \<open>except\<close> is never entered.
\<close>

definition check_one ::
  "pyval \<Rightarrow> trading_suite option \<Rightarrow> max_contracts_rule \<Rightarrow> engine_stats \<times> results \<times> effect list
     \<Rightarrow> max_contracts_rule \<times> engine_stats \<times> results \<times> effect list" where
  "check_one ev ts rule acc =
     (let (st, res, fx) = acc;
          st1 = st\<lparr>rules_checked := rules_checked st + 1\<rparr>;
          res1 = res\<lparr>res_rules_checked := res_rules_checked res + 1\<rparr>;
          (rule_passed, rule', fx') = check rule ev ts
      in if \<not> rule_passed
         then (let st2 = st1\<lparr>breaches_detected := breaches_detected st1 + 1\<rparr>;
                   breach = \<lparr>bi_rule = ''MaxContractsRule'', bi_rule_config = get_stats rule'\<rparr>;
                   res2 = res1\<lparr>res_breaches := res_breaches res1 @ [breach]\<rparr>;
                   res3 = (if auto_flatten (config rule')
                           then res2\<lparr>res_actions_taken := res_actions_taken res2 @
                                  [\<lparr>at_rule = ''MaxContractsRule'',
                                    at_action = ''auto_flatten_attempted''\<rparr>]\<rparr>
                           else res2)
               in (rule', st2, res3, fx @ fx'))
         else (rule', st1, res1, fx @ fx'))"

fun check_loop ::
  "pyval \<Rightarrow> trading_suite option \<Rightarrow> max_contracts_rule list \<Rightarrow> engine_stats \<times> results \<times> effect list
     \<Rightarrow> max_contracts_rule list \<times> engine_stats \<times> results \<times> effect list" where
  "check_loop ev ts [] acc = ([], acc)"
| "check_loop ev ts (rule # rest) acc =
     (let (rule', acc') = check_one ev ts rule acc;
          (rest', acc'') = check_loop ev ts rest acc'
      in (rule' # rest', acc''))"

text \<open>
  \<open>RuleEngine.process_event\<close>.  The engine object has no \<open>trading_suite\<close> attribute, so
  every rule is checked with \<open>api_client\<close>.
\<close>

definition process_event ::
  "string \<Rightarrow> pyval \<Rightarrow> trading_suite option \<Rightarrow> rule_engine \<Rightarrow> results \<times> rule_engine \<times> effect list" where
  "process_event event_type event_data api_client e =
     (let st0 = (stats e)\<lparr>events_processed := events_processed (stats e) + 1\<rparr>;
          fx0 = [Log INFO ''RuleEngine processing event''];
          res0 = \<lparr>res_event_type = event_type, res_rules_checked = 0,
                  res_breaches = [], res_actions_taken = []\<rparr>
      in if event_type \<notin> set [''position_updated'', ''order_filled'']
         then (res0, e\<lparr>stats := st0\<rparr>, fx0)
         else (let (rules', st, res, fx) = check_loop event_data api_client (rules e) (st0, res0, fx0)
               in (res, e\<lparr>rules := rules', stats := st\<rparr>, fx)))"

text \<open>
  \<open>RiskEventHandler\<close>: the engine it drives is the listener's own \<open>rule_engine\<close> object
  (one object, two references), so the handler record holds only its other fields.
\<close>

record risk_event_handler =
  h_trading_suite :: "trading_suite option"
  h_api_client :: "trading_suite option"

text \<open>\<open>v != 0\<close>\<close>

fun py_ne_zero :: "pyval \<Rightarrow> bool" where
  "py_ne_zero (PInt n) = (n \<noteq> 0)"
| "py_ne_zero (PBool b) = b"
| "py_ne_zero v = True"

text \<open>
  The auto-flatten attempt that \<open>RiskEventHandler.on_order_filled\<close> makes for a breach
  whose stats snapshot has \<open>auto_flatten\<close> set (the body of its \<open>try\<close>).
\<close>

definition handler_flatten :: "risk_event_handler \<Rightarrow> pyval \<Rightarrow> effect list" where
  "handler_flatten h event =
     Log WARNING ''AUTO-FLATTEN ENABLED: Attempting to close position'' #
     (let current_position =
            (if is_dict event \<and> has_key event ''current_position''
             then (case py_get event ''current_position'' PNone of Inr c \<Rightarrow> c | Inl e \<Rightarrow> PNone)
             else PNone)
      in case h_trading_suite h of
           None \<Rightarrow> [Log ERROR ''No position data available for auto-flatten'']
         | Some suite \<Rightarrow>
             if \<not> truthy current_position
             then [Log ERROR ''No position data available for auto-flatten'']
             else (case py_get current_position ''size'' (PInt 0) of
                     Inl e \<Rightarrow> [Log ERROR ''Auto-flatten failed'']
                   | Inr position_size \<Rightarrow>
                       (case py_get current_position ''contract'' (PStr ''unknown'') of
                          Inl e \<Rightarrow> [Log ERROR ''Auto-flatten failed'']
                        | Inr contract_id \<Rightarrow>
                            if py_ne_zero position_size
                            then [Log INFO ''Calling PositionManager close_position_direct'',
                                  ClosePositionDirect contract_id] @
                                 (case close_position_direct suite contract_id of
                                    CloseRaises \<Rightarrow> [Log ERROR ''PositionManager call failed'']
                                  | CloseReturns res \<Rightarrow>
                                      [Log INFO ''Auto-flatten PositionManager result''])
                            else [Log WARNING ''Position size is 0, no flattening needed''])))"

text \<open>\<open>RiskEventHandler.on_order_filled\<close>\<close>

definition handler_on_order_filled ::
  "risk_event_handler \<Rightarrow> pyval \<Rightarrow> rule_engine \<Rightarrow> results \<times> rule_engine \<times> effect list" where
  "handler_on_order_filled h event e =
     (let (res, e', fx) = process_event ''order_filled'' event (h_api_client h) e;
          fx1 = [Log INFO ''RiskEventHandler received order_filled event'',
                 Log DEBUG ''Order event data type'', Log DEBUG ''Order event''] @ fx @
                [Log INFO ''Risk rules evaluated'']
      in if res_breaches res \<noteq> []
         then (res, e', fx1 @ [Log WARNING ''RISK BREACHES DETECTED''] @
                 concat (map (\<lambda>breach. Log WARNING ''Rule | Config'' #
                                (if rs_auto_flatten (bi_rule_config breach)
                                 then handler_flatten h event else []))
                             (res_breaches res)))
         else (res, e', fx1 @ [Log INFO ''No breaches detected - trade within limits'']))"

section \<open>The event listener (event_listener.py)\<close>

text \<open>
  What the listener takes from outside this repository: the value-to-name table of the
  library enum \<open>PositionType\<close>, the value of \<open>OrderSide.BUY\<close>, Python's rendering of a
  number with the format \<open>.2f\<close>, and Python's subtraction of floats.  A clock reading
  is a float, modelled by the real number it denotes; the difference of two floats is
  rounded, so it is not the difference of the reals, and the model takes the operation
  as it is given.  Comparing two floats is exact, and so are the constants 0.5 and 3.0.
\<close>

record library =
  position_type_name :: "int \<Rightarrow> string option"
  order_side_buy :: int
  format_2f :: "real \<Rightarrow> string"
  float_sub :: "real \<Rightarrow> real \<Rightarrow> real"

text \<open>Decimal rendering of an integer (\<open>str(n)\<close>).\<close>

fun show_nat :: "nat \<Rightarrow> string" where
  "show_nat n = (if n < 10 then [char_of (48 + n)]
                 else show_nat (n div 10) @ [char_of (48 + n mod 10)])"

declare show_nat.simps [simp del]

definition show_int :: "int \<Rightarrow> string" where
  "show_int i = (if i < 0 then CHR ''-'' # show_nat (nat (- i)) else show_nat (nat i))"

text \<open>\<open>EventListener._decode_position_type\<close>\<close>

definition decode_position_type :: "library \<Rightarrow> int \<Rightarrow> string" where
  "decode_position_type lib type_int =
     (case position_type_name lib type_int of
        Some name \<Rightarrow> name
      | None \<Rightarrow> ''UNKNOWN('' @ show_int type_int @ '')'')"

text \<open>
  A position as the broker reports it, the payload of a position-updated event and the
  items of \<open>get_all_positions()\<close>: a dict or an object, read through \<open>_safe_get\<close> with a
  default for each key, so every key may be absent.
\<close>

record position_payload =
  pp_contractId :: "string option"
  pp_size :: "int option"
  pp_averagePrice :: "real option"
  pp_type :: "int option"

text \<open>The dict that \<open>_get_current_position_info\<close> builds.\<close>

record pos_info =
  pi_contract :: string
  pi_size :: int
  pi_avg_price :: string
  pi_direction :: string
  pi_pnl :: "string option"

text \<open>The dict kept in \<open>_last_confirmed_position\<close>.\<close>

record confirmed_position =
  cp_contract :: string
  cp_size :: int
  cp_direction :: string
  cp_avg_price :: string

record event_counts =
  ec_order_filled :: nat
  ec_position_updated :: nat
  ec_position_pnl_update :: nat

text \<open>The listener object.  Times are the event loop's clock readings.\<close>

record event_listener =
  suite :: "trading_suite option"
  the_rule_engine :: "rule_engine option"
  risk_handler :: "risk_event_handler option"
  enable_risk_rules :: bool
  counts :: event_counts
  position_cache :: "pos_info option"
  cache_timestamp :: real
  cache_ttl :: real
  trade_actions :: "string \<rightharpoonup> nat"
  last_confirmed_position :: "confirmed_position option"
  position_flat_timestamp :: "real option"
  ignore_reopen_window :: real
  stale_executions_filtered :: nat

text \<open>\<open>EventListener.__init__\<close>\<close>

definition new_listener :: "bool \<Rightarrow> event_listener" where
  "new_listener enable =
     \<lparr>suite = None, the_rule_engine = None, risk_handler = None, enable_risk_rules = enable,
      counts = \<lparr>ec_order_filled = 0, ec_position_updated = 0, ec_position_pnl_update = 0\<rparr>,
      position_cache = None, cache_timestamp = 0, cache_ttl = 0.5,
      trade_actions = [''Open'' \<mapsto> 0, ''Add'' \<mapsto> 0, ''Reduce'' \<mapsto> 0, ''Close'' \<mapsto> 0,
                       ''Reverse'' \<mapsto> 0, ''Adjust'' \<mapsto> 0, ''Unknown'' \<mapsto> 0],
      last_confirmed_position = None, position_flat_timestamp = None,
      ignore_reopen_window = 3.0, stale_executions_filtered = 0\<rparr>"

text \<open>
  \<open>EventListener._classify_trade_action\<close>.  A position dict always has its five keys,
  so it is falsy only when it is \<open>None\<close>.
\<close>

definition classify_trade_action :: "pos_info option \<Rightarrow> pos_info option \<Rightarrow> string \<Rightarrow> string" where
  "classify_trade_action prev_pos current_pos order_side =
     (case (prev_pos, current_pos) of
        (None, Some c) \<Rightarrow> ''Open''
      | (Some p, None) \<Rightarrow> ''Close''
      | (Some p, Some c) \<Rightarrow>
          (if \<bar>pi_size p\<bar> = 0 \<and> \<bar>pi_size c\<bar> > 0 then ''Open''
           else if \<bar>pi_size c\<bar> = 0 \<and> \<bar>pi_size p\<bar> > 0 then ''Close''
           else if pi_direction c = pi_direction p
           then (if \<bar>pi_size c\<bar> > \<bar>pi_size p\<bar> then ''Add''
                 else if \<bar>pi_size c\<bar> < \<bar>pi_size p\<bar> then ''Reduce''
                 else ''Adjust'')
           else if pi_direction c \<noteq> pi_direction p then ''Flip''
           else ''Unknown'')
      | (None, None) \<Rightarrow> ''Unknown'')"

text \<open>
  One round of the suite's replies to \<open>_get_current_position_info\<close>:
  \<open>positions.get_all_positions()\<close> raises or returns a list (an item \<open>None\<close> stands for a
  falsy item), and the P&L text \<open>pnl_info\<close> that the inner \<open>try\<close> ends with (\<open>None\<close> when
  the price is missing or anything in it raises).
\<close>

datatype positions_reply = PositionsRaise | Positions "position_payload option list"

record query_env =
  positions_reply :: positions_reply
  pnl_reply :: "string option"

text \<open>
  \<open>EventListener._get_current_position_info\<close>, with \<open>now\<close> the clock reading it takes.
  Returns the value returned, the listener after the call and the effects; the effect
  \<open>GetAllPositions\<close> marks a live position query.
\<close>

definition get_current_position_info ::
  "library \<Rightarrow> real \<Rightarrow> bool \<Rightarrow> query_env \<Rightarrow> event_listener
     \<Rightarrow> pos_info option \<times> event_listener \<times> effect list" where
  "get_current_position_info lib now force_refresh env s =
     (if suite s = None then (None, s, [])
      else if \<not> force_refresh \<and> position_cache s \<noteq> None
              \<and> float_sub lib now (cache_timestamp s) < cache_ttl s
      then (position_cache s, s, [])
      else
        (case positions_reply env of
           PositionsRaise \<Rightarrow>
             (None, s, [GetAllPositions, Log WARNING ''Could not fetch position info''])
         | Positions positions \<Rightarrow>
             (case positions of
                [] \<Rightarrow> (None, s\<lparr>position_cache := None, cache_timestamp := now\<rparr>, [GetAllPositions])
              | first # others \<Rightarrow>
                  (case first of
                     None \<Rightarrow>
                       (None, s\<lparr>position_cache := None, cache_timestamp := now\<rparr>, [GetAllPositions])
                   | Some position \<Rightarrow>
                       (let direction = decode_position_type lib
                                          (case pp_type position of Some t \<Rightarrow> t | None \<Rightarrow> 0);
                            pnl_info = pnl_reply env;
                            result =
                              \<lparr>pi_contract = (case pp_contractId position of
                                                Some c \<Rightarrow> c | None \<Rightarrow> ''unknown''),
                               pi_size = (case pp_size position of Some n \<Rightarrow> n | None \<Rightarrow> 0),
                               pi_avg_price = CHR ''$'' # format_2f lib
                                  (case pp_averagePrice position of Some a \<Rightarrow> a | None \<Rightarrow> 0),
                               pi_direction = direction,
                               pi_pnl = pnl_info\<rparr>
                        in (Some result,
                            s\<lparr>position_cache := Some result, cache_timestamp := now\<rparr>,
                            [GetAllPositions, GetCurrentPrice]))))))"

text \<open>
  The test \<open>self._position_flat_timestamp and (now - self._position_flat_timestamp) <
  self._ignore_reopen_window\<close>: a timestamp that is \<open>None\<close> or \<open>0.0\<close> is falsy.
\<close>

definition within_reopen_window :: "library \<Rightarrow> event_listener \<Rightarrow> real \<Rightarrow> bool" where
  "within_reopen_window lib s now =
     (case position_flat_timestamp s of
        None \<Rightarrow> False
      | Some t \<Rightarrow> t \<noteq> 0 \<and> float_sub lib now t < ignore_reopen_window s)"




text \<open>\<open>EventListener._safe_get\<close>\<close>

fun safe_get :: "pyval \<Rightarrow> string \<Rightarrow> pyval \<Rightarrow> pyval" where
  "safe_get (PDict d) k dflt = (case map_of d k of Some v \<Rightarrow> v | None \<Rightarrow> dflt)"
| "safe_get v k dflt = py_getattr v k dflt"

text \<open>\<open>v == n\<close> for an integer \<open>n\<close>.\<close>

fun py_eq_int :: "pyval \<Rightarrow> int \<Rightarrow> bool" where
  "py_eq_int (PInt m) n = (m = n)"
| "py_eq_int (PBool b) n = ((if b then 1 else 0) = n)"
| "py_eq_int v n = False"

text \<open>
  What the outside supplies while \<open>_on_order_filled\<close> runs: the clock reading and the
  suite's replies for the snapshot before the propagation delay, the same for the
  snapshot after it, and the clock reading of the staleness test.
\<close>

record fill_env =
  now_prev :: real
  reply_prev :: query_env
  now_current :: real
  reply_current :: query_env
  now_check :: real

text \<open>The log records of a trade, after the per-action counter was incremented.\<close>

definition trade_log :: "pos_info option \<Rightarrow> pos_info option \<Rightarrow> effect list" where
  "trade_log prev_position current_position =
     [Log INFO ''TRADE_EXECUTED'', Log INFO ''ID'', Log INFO ''Action''] @
     (case (prev_position, current_position) of
        (Some p, Some c) \<Rightarrow>
          [Log INFO ''Position'', Log INFO ''Avg Price''] @
          (if pi_pnl c \<noteq> None \<and> pi_pnl c \<noteq> Some [] \<and> \<bar>pi_size c\<bar> > 0
           then [Log INFO ''Unrealized PnL''] else []) @
          [Log INFO ''Total Trades'']
      | (None, Some c) \<Rightarrow>
          [Log INFO ''Position Opened'', Log INFO ''Avg Price'', Log INFO ''Total Trades'']
      | (Some p, None) \<Rightarrow>
          [Log INFO ''Position Closed'',
           Log ERROR ''Error in event handler _on_order_filled'', Log ERROR ''Event data'']
      | (None, None) \<Rightarrow>
          [Log INFO ''Position: FLAT'', Log INFO ''Total Trades''])"

text \<open>
  The two snapshot reads of \<open>_on_order_filled\<close>, neither with forced refresh, and the
  propagation delay between them.
\<close>

definition snapshots_around_fill ::
  "library \<Rightarrow> fill_env \<Rightarrow> event_listener
     \<Rightarrow> pos_info option \<times> pos_info option \<times> event_listener \<times> effect list" where
  "snapshots_around_fill lib env s =
     (let (prev_position, s2, fx1) =
             get_current_position_info lib (now_prev env) False (reply_prev env) s;
          (current_position, s3, fx2) =
             get_current_position_info lib (now_current env) False (reply_current env) s2
      in (prev_position, current_position, s3, fx1 @ [Sleep] @ fx2))"

text \<open>The test \<open>is_stale_after_manual_close\<close> of \<open>_on_order_filled\<close>.\<close>

definition is_stale_after_manual_close ::
  "library \<Rightarrow> event_listener \<Rightarrow> real \<Rightarrow> pos_info option \<Rightarrow> bool" where
  "is_stale_after_manual_close lib s now current_position =
     (within_reopen_window lib s now \<and>
      (case current_position of None \<Rightarrow> False | Some c \<Rightarrow> \<bar>pi_size c\<bar> > 0))"

definition stale_log :: "effect list" where
  "stale_log =
     [Log WARNING ''STALE_EXECUTION_IGNORED'',
      Log WARNING ''This order fill is likely from before manual close - ignoring for position tracking'',
      Log WARNING ''Confirmed position remains'']"

text \<open>
  \<open>EventListener._on_order_filled\<close>, with \<open>data\<close> the event's data.  Two things raise
  inside its \<open>try\<close> and end the handler in the \<open>except\<close> branch (two error records):
  the subscript \<open>self._trade_actions[trade_action]\<close> with a label that is not a key, and,
  after a full close, \<open>await\<close> applied to the float that the synchronous
  \<open>_get_incremental_realized_pnl\<close> returns.
\<close>

definition on_order_filled ::
  "library \<Rightarrow> fill_env \<Rightarrow> pyval \<Rightarrow> event_listener \<Rightarrow> event_listener \<times> effect list" where
  "on_order_filled lib env data s =
     (let s1 = s\<lparr>counts := (counts s)\<lparr>ec_order_filled := ec_order_filled (counts s) + 1\<rparr>\<rparr>;
          order_data = safe_get data ''order_data'' (PDict []);
          side_int = safe_get order_data ''side'' (PInt 0);
          side = (if py_eq_int side_int (order_side_buy lib) then ''BUY'' else ''SELL'');
          (prev_position, current_position, s3, fx) = snapshots_around_fill lib env s1;
          now = now_check env
      in if is_stale_after_manual_close lib s3 now current_position
         then (s3\<lparr>stale_executions_filtered := stale_executions_filtered s3 + 1\<rparr>,
               fx @ stale_log)
         else
           (let trade_action = classify_trade_action prev_position current_position side
            in case trade_actions s3 trade_action of
                 None \<Rightarrow>
                   (s3, fx @ [Log ERROR ''Error in event handler _on_order_filled'',
                              Log ERROR ''Event data''])
               | Some n \<Rightarrow>
                   (s3\<lparr>trade_actions := (trade_actions s3)(trade_action \<mapsto> n + 1)\<rparr>,
                    fx @ trade_log prev_position current_position)))"

text \<open>The dict of \<open>_get_current_position_info\<close> as a Python value.\<close>

definition pos_info_value :: "pos_info option \<Rightarrow> pyval" where
  "pos_info_value p =
     (case p of
        None \<Rightarrow> PNone
      | Some i \<Rightarrow>
          PDict [(''contract'', PStr (pi_contract i)), (''size'', PInt (pi_size i)),
                 (''avg_price'', PStr (pi_avg_price i)), (''direction'', PStr (pi_direction i)),
                 (''pnl'', (case pi_pnl i of None \<Rightarrow> PNone | Some t \<Rightarrow> PStr t))])"

text \<open>The enriched event that the risk check builds from the fill and the snapshot.\<close>

definition enriched_event :: "pyval \<Rightarrow> pos_info option \<Rightarrow> pyval" where
  "enriched_event data current_position =
     PDict [(''order_event'', data), (''current_position'', pos_info_value current_position),
            (''event_type'', PStr ''order_filled'')]"

text \<open>
  What the outside supplies to the risk check that follows the fill handler: the clock
  reading and the suite's replies for its forced snapshot refresh.
\<close>

record risk_env =
  now_risk :: real
  reply_risk :: query_env

text \<open>
  \<open>EventListener._on_order_filled_with_risk_check\<close>.  A handler without an engine
  cannot arise (both are set together); the model then takes the \<open>except\<close> branch.
\<close>

definition on_order_filled_with_risk_check ::
  "library \<Rightarrow> fill_env \<Rightarrow> risk_env \<Rightarrow> pyval \<Rightarrow> event_listener \<Rightarrow> event_listener \<times> effect list" where
  "on_order_filled_with_risk_check lib env renv data s =
     (let (s1, fx1) = on_order_filled lib env data s
      in if enable_risk_rules s1 \<and> risk_handler s1 \<noteq> None
         then (let (current_position, s2, fx2) =
                     get_current_position_info lib (now_risk renv) True (reply_risk renv) s1;
                   event = enriched_event data current_position
               in case (risk_handler s2, the_rule_engine s2) of
                    (Some h, Some e) \<Rightarrow>
                      (let (res, e', fx3) = handler_on_order_filled h event e
                       in (s2\<lparr>the_rule_engine := Some e'\<rparr>, fx1 @ fx2 @ fx3))
                  | _ \<Rightarrow> (s2, fx1 @ fx2 @ [Log ERROR ''Error in risk check after order fill'']))
         else (s1, fx1))"

section \<open>Notions used to state the properties\<close>

text \<open>
  The decision table of the trade-action classifier as the specification words it, on
  the signed sizes: absent and present positions first; then \<open>prev.size == 0\<close> with
  \<open>curr.size > 0\<close> giving Open and \<open>prev.size > 0\<close> with \<open>curr.size == 0\<close> giving
  Close; then, in one direction, a growing size giving Add, a shrinking size Reduce and
  an unchanged size Adjust; then a change of direction giving Flip; else Unknown.
\<close>

datatype trade_action = Open | Add | Reduce | Close | Flip | Adjust | Unknown

fun action_name :: "trade_action \<Rightarrow> string" where
  "action_name Open = ''Open''"
| "action_name Add = ''Add''"
| "action_name Reduce = ''Reduce''"
| "action_name Close = ''Close''"
| "action_name Flip = ''Flip''"
| "action_name Adjust = ''Adjust''"
| "action_name Unknown = ''Unknown''"

definition classify_by_table :: "pos_info option \<Rightarrow> pos_info option \<Rightarrow> trade_action" where
  "classify_by_table prev cur =
     (case prev of
        None \<Rightarrow> (case cur of None \<Rightarrow> Unknown | Some c \<Rightarrow> Open)
      | Some p \<Rightarrow>
          (case cur of
             None \<Rightarrow> Close
           | Some c \<Rightarrow>
               if pi_size p = 0 \<and> 0 < pi_size c then Open
               else if 0 < pi_size p \<and> pi_size c = 0 then Close
               else if pi_direction p = pi_direction c
               then (if pi_size p < pi_size c then Add
                     else if pi_size c < pi_size p then Reduce
                     else Adjust)
               else Flip))"

text \<open>The same position with the magnitude of its size for its size.\<close>

definition magnitude :: "pos_info \<Rightarrow> pos_info" where
  "magnitude p = p\<lparr>pi_size := \<bar>pi_size p\<bar>\<rparr>"

text \<open>
  A parsed configuration enables the max-contracts rule; its entry for the rule lacks
  \<open>max_size\<close> or \<open>severity\<close>.
\<close>

definition max_contracts_enabled :: "config_json \<Rightarrow> bool" where
  "max_contracts_enabled c =
     (case cj_rules c of
        None \<Rightarrow> False
      | Some r \<Rightarrow> (case rj_max_contracts r of
                     None \<Rightarrow> False
                   | Some m \<Rightarrow> (case mc_enabled m of Some b \<Rightarrow> b | None \<Rightarrow> False)))"

definition max_contracts_incomplete :: "config_json \<Rightarrow> bool" where
  "max_contracts_incomplete c =
     (case cj_rules c of
        None \<Rightarrow> False
      | Some r \<Rightarrow> (case rj_max_contracts r of
                     None \<Rightarrow> False
                   | Some m \<Rightarrow> mc_max_size m = None \<or> mc_severity m = None))"

text \<open>One check of a rule on an event: the rule afterwards, and the verdict.\<close>

definition rule_after :: "pyval \<Rightarrow> trading_suite option \<Rightarrow> max_contracts_rule \<Rightarrow> max_contracts_rule" where
  "rule_after ev ts r = fst (snd (check r ev ts))"

definition rule_passes :: "pyval \<Rightarrow> trading_suite option \<Rightarrow> max_contracts_rule \<Rightarrow> bool" where
  "rule_passes ev ts r = fst (check r ev ts)"

text \<open>The breach record of a rule: its class name and its stats snapshot.\<close>

definition breach_record :: "max_contracts_rule \<Rightarrow> breach_info" where
  "breach_record r = \<lparr>bi_rule = ''MaxContractsRule'', bi_rule_config = get_stats r\<rparr>"


text \<open>
  Whether \<open>_on_order_filled\<close> classifies a fill as stale: its own test, on the
  snapshots it takes.
\<close>

definition stale_fill :: "library \<Rightarrow> fill_env \<Rightarrow> event_listener \<Rightarrow> bool" where
  "stale_fill lib env s =
     (let s1 = s\<lparr>counts := (counts s)\<lparr>ec_order_filled := ec_order_filled (counts s) + 1\<rparr>\<rparr>;
          (prev_position, current_position, s3, fx) = snapshots_around_fill lib env s1
      in is_stale_after_manual_close lib s3 (now_check env) current_position)"

text \<open>The enriched event that the risk check after a fill hands to the rules.\<close>

definition risk_event :: "library \<Rightarrow> fill_env \<Rightarrow> risk_env \<Rightarrow> pyval \<Rightarrow> event_listener \<Rightarrow> pyval" where
  "risk_event lib env renv data s =
     enriched_event data
       (fst (get_current_position_info lib (now_risk renv) True (reply_risk renv)
               (fst (on_order_filled lib env data s))))"

text \<open>
  The second listener is the first one except, possibly, for the cache entry and its
  timestamp.
\<close>

definition keeps_all_but_cache :: "event_listener \<Rightarrow> event_listener \<Rightarrow> bool" where
  "keeps_all_but_cache s s' =
     (s'\<lparr>position_cache := position_cache s, cache_timestamp := cache_timestamp s\<rparr> = s)"


subsection \<open>Example inputs\<close>

definition cfg2 :: max_contracts_config where
  "cfg2 = \<lparr>enabled = True, max_size = 2, severity = ''high'', auto_flatten = False\<rparr>"

definition cfg10 :: max_contracts_config where
  "cfg10 = \<lparr>enabled = True, max_size = 10, severity = ''high'', auto_flatten = False\<rparr>"

text \<open>A plain position payload, as in the rule's own test.\<close>

definition position_event_of_size :: "int \<Rightarrow> pyval" where
  "position_event_of_size n =
     PDict [(''contractId'', PStr ''MNQ_TEST''), (''accountId'', PStr ''TEST123''),
            (''size'', PInt n)]"

text \<open>A configuration file that enables the max-contracts rule with limit 2.\<close>

definition file2 :: config_file where
  "file2 = FileContent
     \<lparr>cj_rules = Some \<lparr>rj_max_contracts =
         Some \<lparr>mc_enabled = Some True, mc_max_size = Some 2,
               mc_severity = Some ''high'', mc_auto_flatten = None\<rparr>\<rparr>,
      cj_global = None\<rparr>"

text \<open>
  A library for the examples: the three position types, \<open>BUY = 0\<close>, a rendering of
  numbers that no example reads, and a subtraction without rounding error.
\<close>

definition example_lib :: library where
  "example_lib =
     \<lparr>position_type_name =
        (\<lambda>n. if n = 0 then Some ''UNDEFINED'' else if n = 1 then Some ''LONG''
              else if n = 2 then Some ''SHORT'' else None),
      order_side_buy = 0, format_2f = (\<lambda>x. ''0.00''), float_sub = (\<lambda>a b. a - b)\<rparr>"

definition example_suite :: trading_suite where
  "example_suite = \<lparr>close_position_direct = (\<lambda>c. CloseRaises)\<rparr>"

text \<open>A listener after \<open>setup_suite\<close> connected it, before any event.\<close>

definition connected_listener :: event_listener where
  "connected_listener = (new_listener True)\<lparr>suite := Some example_suite\<rparr>"

text \<open>The broker reports no position; the position query raises.\<close>

definition no_position_env :: query_env where
  "no_position_env = \<lparr>positions_reply = Positions [], pnl_reply = None\<rparr>"

definition failing_env :: query_env where
  "failing_env = \<lparr>positions_reply = PositionsRaise, pnl_reply = None\<rparr>"

definition long5 :: pos_info where
  "long5 = \<lparr>pi_contract = ''MNQ'', pi_size = 5, pi_avg_price = ''$24738.75'',
            pi_direction = ''LONG'', pi_pnl = None\<rparr>"

text \<open>A listener whose cache holds a snapshot taken at time 1.\<close>

definition cached_listener :: event_listener where
  "cached_listener = connected_listener\<lparr>position_cache := Some long5, cache_timestamp := 1\<rparr>"

text \<open>A position update of size 5, and a listener confirmed flat by a manual close at \<open>t0\<close>.\<close>

definition size5_update :: position_payload where
  "size5_update = \<lparr>pp_contractId = Some ''MNQ'', pp_size = Some 5,
                    pp_averagePrice = Some 24738.75, pp_type = Some 1\<rparr>"

definition flat_position :: confirmed_position where
  "flat_position = \<lparr>cp_contract = ''MNQ'', cp_size = 0, cp_direction = ''UNDEFINED'',
                     cp_avg_price = ''unknown''\<rparr>"

definition closed_listener :: "real \<Rightarrow> event_listener" where
  "closed_listener t0 =
     connected_listener\<lparr>last_confirmed_position := Some flat_position,
                        position_flat_timestamp := Some t0\<rparr>"

text \<open>
  A stale fill: the listener was confirmed flat by a manual close at 10 and has one
  rule loaded; the fill is seen at 10.7 to 10.8 while the broker still reports size 5.
\<close>

definition position5_env :: query_env where
  "position5_env = \<lparr>positions_reply = Positions [Some size5_update], pnl_reply = None\<rparr>"

definition stale_env :: fill_env where
  "stale_env = \<lparr>now_prev = 10.7, reply_prev = position5_env, now_current = 10.8,
                 reply_current = position5_env, now_check = 10.8\<rparr>"

definition risk_env5 :: risk_env where
  "risk_env5 = \<lparr>now_risk = 10.9, reply_risk = position5_env\<rparr>"

definition fill_data :: pyval where
  "fill_data = PDict [(''order_id'', PInt 1),
                      (''order_data'', PDict [(''side'', PInt 0), (''type'', PInt 2)])]"

definition example_handler :: risk_event_handler where
  "example_handler = \<lparr>h_trading_suite = Some example_suite, h_api_client = None\<rparr>"

definition engine2 :: rule_engine where
  "engine2 = (new_engine None)\<lparr>rules := [new_rule cfg2]\<rparr>"

definition risk_listener :: event_listener where
  "risk_listener =
     (closed_listener 10)\<lparr>the_rule_engine := Some engine2, risk_handler := Some example_handler\<rparr>"

text \<open>A short position of the given signed size.\<close>

definition short_of_size :: "int \<Rightarrow> pos_info" where
  "short_of_size n = \<lparr>pi_contract = ''MNQ'', pi_size = n, pi_avg_price = ''$24738.75'',
            pi_direction = ''SHORT'', pi_pnl = None\<rparr>"

text \<open>A parsed configuration file that enables the rule and gives no \<open>max_size\<close>.\<close>

definition incomplete_file :: config_file where
  "incomplete_file = FileContent
     \<lparr>cj_rules = Some \<lparr>rj_max_contracts =
         Some \<lparr>mc_enabled = Some True, mc_max_size = None,
               mc_severity = Some ''high'', mc_auto_flatten = None\<rparr>\<rparr>,
      cj_global = None\<rparr>"



section \<open>Properties\<close>

subsection \<open>The trade-action classifier\<close>

text \<open>
  C10.  The label does not depend on the order side: for any two sides the classifier
  returns the same label on the same pair of positions.
\<close>

theorem classify_ignores_side:
  "classify_trade_action prev cur s1 = classify_trade_action prev cur s2"
  by (simp add: classify_trade_action_def)

lemma action_name_inj: "inj action_name"
proof (rule injI)
  fix a b
  assume "action_name a = action_name b"
  then show "a = b" by (cases a; cases b) simp_all
qed

text \<open>
  C5, as amended.  The classifier is a total function of the pair of positions: on
  every pair it returns the name of exactly one of the seven actions, the one that the
  decision table gives, in its order, when every size is replaced by its magnitude.
\<close>

theorem classify_follows_table_on_magnitudes:
  "classify_trade_action prev cur side =
     action_name (classify_by_table (map_option magnitude prev) (map_option magnitude cur))
   \<and> classify_trade_action prev cur side \<in>
       {''Open'', ''Add'', ''Reduce'', ''Close'', ''Flip'', ''Adjust'', ''Unknown''}"
  by (auto simp: classify_trade_action_def classify_by_table_def magnitude_def split: option.splits)

text \<open>On sizes that are not negative this is the decision table itself.\<close>

lemma classify_follows_table_nonneg:
  assumes "\<forall>p. prev = Some p \<longrightarrow> 0 \<le> pi_size p" "\<forall>c. cur = Some c \<longrightarrow> 0 \<le> pi_size c"
  shows "classify_trade_action prev cur side = action_name (classify_by_table prev cur)"
  using assms
  by (auto simp: classify_trade_action_def classify_by_table_def split: option.splits)

text \<open>
  C5 as stated fails on negative sizes: from a short position of size \<open>-2\<close> to one of
  size \<open>-5\<close> the size shrinks, so the table says Reduce, and the classifier, which
  compares magnitudes, says Add.
\<close>

theorem classify_signed_sizes_counterexample:
  "classify_trade_action (Some (short_of_size (- 2))) (Some (short_of_size (- 5))) ''SELL'' = ''Add''
   \<and> action_name (classify_by_table (Some (short_of_size (- 2))) (Some (short_of_size (- 5)))) = ''Reduce''
   \<and> classify_trade_action (Some (short_of_size (- 2))) (Some (short_of_size (- 5))) ''SELL''
       \<noteq> action_name (classify_by_table (Some (short_of_size (- 2))) (Some (short_of_size (- 5))))"
  by (simp add: classify_trade_action_def classify_by_table_def short_of_size_def)

subsection \<open>The max-contracts rule\<close>

text \<open>
  A check of the max-contracts rule, when the size is extracted: a disabled rule passes
  and is left as it was; an enabled rule whose extracted size exceeds the limit in
  magnitude reports a breach and its breach counter grows by exactly one; an enabled
  rule whose extracted size is within the limit passes and is left as it was.
\<close>

lemma check_on_extracted_size:
  "(\<not> enabled (config r) \<longrightarrow>
      fst (check r ev ts) = True \<and> fst (snd (check r ev ts)) = r) \<and>
   (enabled (config r) \<and> fst (extract_position_data ev) = Some pd \<and> pd_size pd = PInt sz
      \<and> \<bar>sz\<bar> > max_size (config r) \<longrightarrow>
      fst (check r ev ts) = False \<and>
      fst (snd (check r ev ts)) = r\<lparr>breach_count := breach_count r + 1\<rparr>) \<and>
   (enabled (config r) \<and> fst (extract_position_data ev) = Some pd \<and> pd_size pd = PInt sz
      \<and> \<bar>sz\<bar> \<le> max_size (config r) \<longrightarrow>
      fst (check r ev ts) = True \<and> fst (snd (check r ev ts)) = r)"
  by (auto simp: check_def handle_breach_def Let_def
           split: prod.splits option.splits sum.splits)

lemma extract_position_event_of_size:
  "fst (extract_position_data (position_event_of_size n)) =
     Some \<lparr>pd_contract_id = PStr ''MNQ_TEST'', pd_account_id = PStr ''TEST123'',
           pd_size = PInt n, pd_event = position_event_of_size n\<rparr>"
  by (simp add: extract_position_data_def position_event_of_size_def extract_regular_def
                py_or_def Let_def)

lemma check_on_extracted_size_examples:
  "fst (check (new_rule cfg2) (position_event_of_size 5) None) = False
   \<and> breach_count (fst (snd (check (new_rule cfg2) (position_event_of_size 5) None))) = 1
   \<and> fst (check (new_rule cfg2) (position_event_of_size 2) None) = True
   \<and> breach_count (fst (snd (check (new_rule cfg2) (position_event_of_size 2) None))) = 0
   \<and> fst (check (new_rule (cfg2\<lparr>enabled := False\<rparr>)) (position_event_of_size 5) None) = True"
  using check_on_extracted_size [where r = "new_rule cfg2" and ev = "position_event_of_size 5"
           and sz = 5 and ts = None
           and pd = "\<lparr>pd_contract_id = PStr ''MNQ_TEST'', pd_account_id = PStr ''TEST123'',
                      pd_size = PInt 5, pd_event = position_event_of_size 5\<rparr>"]
        check_on_extracted_size [where r = "new_rule cfg2" and ev = "position_event_of_size 2"
           and sz = 2 and ts = None
           and pd = "\<lparr>pd_contract_id = PStr ''MNQ_TEST'', pd_account_id = PStr ''TEST123'',
                      pd_size = PInt 2, pd_event = position_event_of_size 2\<rparr>"]
        check_on_extracted_size [where r = "new_rule (cfg2\<lparr>enabled := False\<rparr>)"
           and ev = "position_event_of_size 5" and ts = None]
  by (simp add: extract_position_event_of_size new_rule_def cfg2_def)

text \<open>
  The size is not always extracted.  The enriched event of a fill whose data carries
  neither \<open>contractId\<close> nor \<open>contract_id\<close> makes the extraction subscript the
  snapshot dict with the key \<open>contractId\<close>; the listener stores the contract under
  \<open>contract\<close>, so the subscript raises \<open>KeyError\<close>, which is caught, and the check
  passes whatever the size.
\<close>

lemma enriched_fill_not_extracted:
  assumes "py_get data ''contractId'' PNone = Inr c1" "\<not> truthy c1"
    and "py_get data ''contract_id'' PNone = Inr c2" "\<not> truthy c2"
  shows "fst (extract_position_data (enriched_event data (Some i))) = None"
    and "fst (check r (enriched_event data (Some i)) ts) = True"
    and "fst (snd (check r (enriched_event data (Some i)) ts)) = r"
  using assms
  by (simp_all add: check_def extract_position_data_def enriched_event_def pos_info_value_def
        extract_enriched_def Let_def)

text \<open>
  C6.  The code at the failing input: the rule is enabled with limit 2, the event is
  the enriched event that the listener builds for a fill while the position has size 5,
  and the check passes, with the breach counter unchanged.
\<close>

theorem enriched_fill_breach_missed:
  "pi_size long5 = 5 \<and> max_size cfg2 = 2 \<and> enabled cfg2
   \<and> check (new_rule cfg2) (enriched_event fill_data (Some long5)) ts =
       (True, new_rule cfg2,
        [Log DEBUG ''MaxContractsRule: checking position against limit'',
         Log ERROR ''Failed to extract position data'',
         Log WARNING ''Could not extract position data from event''])"
  by (simp add: check_def extract_position_data_def enriched_event_def pos_info_value_def
        extract_enriched_def Let_def fill_data_def long5_def cfg2_def new_rule_def)

subsection \<open>The rule engine\<close>

lemma check_loop_Cons:
  "check_loop ev ts (r # rs) acc =
     (fst (check_one ev ts r acc) # fst (check_loop ev ts rs (snd (check_one ev ts r acc))),
      snd (check_loop ev ts rs (snd (check_one ev ts r acc))))"
  by (simp add: case_prod_beta)

lemma check_one_rule: "fst (check_one ev ts r acc) = rule_after ev ts r"
  by (simp add: check_one_def rule_after_def Let_def case_prod_beta)

lemma check_one_checked:
  "res_rules_checked (fst (snd (snd (check_one ev ts r acc)))) =
     res_rules_checked (fst (snd acc)) + 1"
  by (simp add: check_one_def Let_def case_prod_beta)

lemma check_one_breaches:
  "res_breaches (fst (snd (snd (check_one ev ts r acc)))) =
     res_breaches (fst (snd acc)) @
     (if rule_passes ev ts r then [] else [breach_record (rule_after ev ts r)])"
  by (simp add: check_one_def Let_def rule_passes_def rule_after_def breach_record_def
                case_prod_beta)

lemma check_one_effects:
  "snd (snd (snd (check_one ev ts r acc))) = snd (snd acc) @ snd (snd (check r ev ts))"
  by (simp add: check_one_def Let_def case_prod_beta)

lemma check_loop_rules:
  "fst (check_loop ev ts rs acc) = map (rule_after ev ts) rs"
  by (induction rs arbitrary: acc)
     (simp_all add: check_loop_Cons check_one_rule del: check_loop.simps(2))

lemma check_loop_checked:
  "res_rules_checked (fst (snd (snd (check_loop ev ts rs acc)))) =
     res_rules_checked (fst (snd acc)) + length rs"
  by (induction rs arbitrary: acc)
     (simp_all add: check_loop_Cons check_one_checked del: check_loop.simps(2))

lemma check_loop_breaches:
  "res_breaches (fst (snd (snd (check_loop ev ts rs acc)))) =
     res_breaches (fst (snd acc)) @
     map (\<lambda>r. breach_record (rule_after ev ts r)) (filter (\<lambda>r. \<not> rule_passes ev ts r) rs)"
  by (induction rs arbitrary: acc)
     (simp_all add: check_loop_Cons check_one_breaches del: check_loop.simps(2))

lemma check_loop_effects:
  "snd (snd (snd (check_loop ev ts rs acc))) =
     snd (snd acc) @ concat (map (\<lambda>r. snd (snd (check r ev ts))) rs)"
  by (induction rs arbitrary: acc)
     (simp_all add: check_loop_Cons check_one_effects del: check_loop.simps(2))

lemma process_event_unfold:
  assumes "event_type = ''position_updated'' \<or> event_type = ''order_filled''"
  shows "process_event event_type ev api e =
     (let loop = check_loop ev api (rules e)
                   ((stats e)\<lparr>events_processed := events_processed (stats e) + 1\<rparr>,
                    \<lparr>res_event_type = event_type, res_rules_checked = 0,
                     res_breaches = [], res_actions_taken = []\<rparr>,
                    [Log INFO ''RuleEngine processing event''])
      in (fst (snd (snd loop)), e\<lparr>rules := fst loop, stats := fst (snd loop)\<rparr>,
          snd (snd (snd loop))))"
  using assms by (auto simp: process_event_def Let_def case_prod_beta)

text \<open>
  C7.  For an event of kind \<open>position_updated\<close> or \<open>order_filled\<close>, \<open>process_event\<close>
  checks every loaded rule exactly once, in order: the rule list afterwards is the list
  of the rules after one check each, and the effects are those of one check per rule;
  \<open>rules_checked\<close> is the number of loaded rules; and \<open>breaches\<close> holds exactly one
  record, with the rule's class name and its stats snapshot, for each rule whose check
  did not pass.
\<close>

theorem process_event_checks_every_rule:
  assumes "event_type = ''position_updated'' \<or> event_type = ''order_filled''"
  shows "res_rules_checked (fst (process_event event_type ev api e)) = length (rules e)
     \<and> rules (fst (snd (process_event event_type ev api e))) = map (rule_after ev api) (rules e)
     \<and> snd (snd (process_event event_type ev api e)) =
         Log INFO ''RuleEngine processing event'' #
         concat (map (\<lambda>r. snd (snd (check r ev api))) (rules e))
     \<and> res_breaches (fst (process_event event_type ev api e)) =
         map (\<lambda>r. breach_record (rule_after ev api r))
             (filter (\<lambda>r. \<not> rule_passes ev api r) (rules e))"
  by (simp add: process_event_unfold [OF assms] Let_def check_loop_checked check_loop_rules
                check_loop_breaches check_loop_effects)

lemma rule_passes_examples:
  "rule_passes (position_event_of_size 5) None (new_rule cfg10)"
  "\<not> rule_passes (position_event_of_size 5) None (new_rule cfg2)"
  by (simp_all add: rule_passes_def check_def extract_position_event_of_size new_rule_def
                    cfg10_def cfg2_def handle_breach_def Let_def case_prod_beta
               split: option.splits)

theorem process_event_checks_every_rule_witness:
  "res_rules_checked (fst (process_event ''order_filled'' (position_event_of_size 5) None
       ((new_engine None)\<lparr>rules := [new_rule cfg10, new_rule cfg2]\<rparr>))) = 2
   \<and> length (res_breaches (fst (process_event ''order_filled'' (position_event_of_size 5) None
       ((new_engine None)\<lparr>rules := [new_rule cfg10, new_rule cfg2]\<rparr>)))) = 1"
  using process_event_checks_every_rule [where event_type = "''order_filled''"
          and ev = "position_event_of_size 5" and api = None
          and e = "(new_engine None)\<lparr>rules := [new_rule cfg10, new_rule cfg2]\<rparr>"]
  by (simp add: rule_passes_examples)

text \<open>
  C8, as amended.  Loading the configuration file has no error result.  With the file
  missing the configuration becomes the empty, dry-run default and one warning is
  logged; with the file unreadable or unparsable it becomes the same default and one
  error is logged.  Initialising the rules from that default adds no rule and raises
  nothing, so \<open>initialize\<close> and \<open>reload_config\<close> raise nothing on such a file, and a new
  engine ends with zero loaded rules.  On a parsed file \<open>initialize\<close> raises
  \<open>KeyError\<close> to its caller exactly when the file enables the rule and gives no
  \<open>max_size\<close> or no \<open>severity\<close>.
\<close>

theorem load_config_fallback:
  "load_config FileMissing e =
     (e\<lparr>eng_config := default_config\<rparr>, [Log WARNING ''Config file not found, using defaults''])
   \<and> load_config FileMalformed e =
     (e\<lparr>eng_config := default_config\<rparr>, [Log ERROR ''Failed to load config''])
   \<and> initialize FileMissing e =
     (None, e\<lparr>eng_config := default_config\<rparr>,
      [Log WARNING ''Config file not found, using defaults'', Log INFO ''RuleEngine initialized''])
   \<and> initialize FileMalformed e =
     (None, e\<lparr>eng_config := default_config\<rparr>,
      [Log ERROR ''Failed to load config'', Log INFO ''RuleEngine initialized''])
   \<and> reload_config FileMissing e =
     (None, e\<lparr>eng_config := default_config\<rparr>,
      [Log INFO ''Reloading risk configuration...'',
       Log WARNING ''Config file not found, using defaults''])
   \<and> reload_config FileMalformed e =
     (None, e\<lparr>eng_config := default_config\<rparr>,
      [Log INFO ''Reloading risk configuration...'', Log ERROR ''Failed to load config''])
   \<and> rules (fst (snd (initialize FileMissing (new_engine path)))) = []
   \<and> rules (fst (snd (initialize FileMalformed (new_engine path)))) = []
   \<and> fst (initialize (FileContent c) e) =
       (if max_contracts_enabled c \<and> max_contracts_incomplete c then Some KeyError else None)
   \<and> cj_rules default_config = Some \<lparr>rj_max_contracts = None\<rparr>
   \<and> cj_global default_config = Some \<lparr>gj_dry_run = Some True\<rparr>"
  by (simp add: load_config_def initialize_rules_def initialize_def reload_config_def
                default_config_def new_engine_def Let_def max_contracts_enabled_def
                max_contracts_incomplete_def
           split: option.splits)

text \<open>
  C8 as stated fails twice: \<open>initialize\<close> raises on a parsed file that enables the rule
  without \<open>max_size\<close>, and an engine that has loaded a rule keeps it when the file is
  then missing or malformed.
\<close>

theorem config_fallback_counterexample:
  "fst (initialize incomplete_file (new_engine None)) = Some KeyError
   \<and> length (rules (fst (snd (reload_config FileMissing
                (fst (snd (initialize file2 (new_engine None)))))))) = 1
   \<and> length (rules (fst (snd (reload_config FileMalformed
                (fst (snd (initialize file2 (new_engine None)))))))) = 1"
  by (simp add: load_config_def initialize_rules_def initialize_def reload_config_def
                file2_def incomplete_file_def new_engine_def default_config_def Let_def)

text \<open>
  C4.  The code at the failing input: \<open>initialize\<close> followed by one \<open>reload_config\<close> on
  an unchanged file that enables the rule leaves two rule instances for the one enabled
  rule config.
\<close>

theorem reload_duplicates_rule:
  "length (rules (fst (snd (initialize file2 (new_engine None))))) = 1 \<and>
   length (rules (fst (snd (reload_config file2
             (fst (snd (initialize file2 (new_engine None)))))))) = 2"
  by (simp add: load_config_def initialize_rules_def initialize_def reload_config_def
                file2_def new_engine_def Let_def)

subsection \<open>The position snapshot cache\<close>

text \<open>
  A live query that returns a position is cached: a second read without forced refresh
  less than the TTL later returns the same value and queries nothing.
\<close>

lemma cache_hit_within_ttl:
  assumes "positions_reply env = Positions (Some p # ps)" "suite s \<noteq> None"
    and "force \<or> position_cache s = None
           \<or> \<not> float_sub lib now (cache_timestamp s) < cache_ttl s"
    and "get_current_position_info lib now force env s = (r, s', fx)"
    and "float_sub lib now' now < cache_ttl s"
  shows "r \<noteq> None \<and> fx = [GetAllPositions, GetCurrentPrice]
         \<and> get_current_position_info lib now' False env' s' = (r, s', [])"
  using assms by (auto simp: get_current_position_info_def Let_def split: if_splits)

text \<open>
  C3.  The code at the failing input: with no open position, a read at time 10 queries
  the broker and stores "no position" with timestamp 10; the next read, 0.1 later and
  without forced refresh, queries the broker again, so two reads less than the TTL
  apart make two position queries.
\<close>

theorem cache_no_position_requeried:
  "get_current_position_info example_lib 10 False no_position_env connected_listener =
     (None, connected_listener\<lparr>position_cache := None, cache_timestamp := 10\<rparr>,
      [GetAllPositions])
   \<and> get_current_position_info example_lib 10.1 False no_position_env
        (connected_listener\<lparr>position_cache := None, cache_timestamp := 10\<rparr>) =
     (None, connected_listener\<lparr>position_cache := None, cache_timestamp := 10.1\<rparr>,
      [GetAllPositions])"
  by (simp add: get_current_position_info_def connected_listener_def new_listener_def
                no_position_env_def)

text \<open>
  C9, as amended.  A read whose position query raises returns absent, whether or not a
  value is cached, leaves the listener (the cached value and its timestamp included) as
  it was, and logs one warning after the query.
\<close>

theorem query_failure_returns_absent:
  assumes "suite s \<noteq> None"
    and "force_refresh \<or> position_cache s = None
           \<or> \<not> float_sub lib now (cache_timestamp s) < cache_ttl s"
    and "positions_reply env = PositionsRaise"
  shows "get_current_position_info lib now force_refresh env s =
           (None, s, [GetAllPositions, Log WARNING ''Could not fetch position info''])"
  using assms by (auto simp: get_current_position_info_def)

theorem query_failure_returns_absent_witness:
  "get_current_position_info example_lib 10 False failing_env cached_listener =
     (None, cached_listener, [GetAllPositions, Log WARNING ''Could not fetch position info''])"
  using query_failure_returns_absent [where s = cached_listener and now = 10
          and force_refresh = False and env = failing_env and lib = example_lib]
  by (simp add: cached_listener_def connected_listener_def new_listener_def failing_env_def
                example_lib_def)

text \<open>
  C9 as stated fails: with a snapshot cached at time 1, a read at time 10 whose query
  raises does not return the last known value.
\<close>

theorem query_failure_last_known_counterexample:
  "position_cache cached_listener = Some long5 \<and>
   fst (get_current_position_info example_lib 10 False failing_env cached_listener)
     \<noteq> position_cache cached_listener"
  by (simp add: get_current_position_info_def cached_listener_def connected_listener_def
                new_listener_def failing_env_def example_lib_def)

subsection \<open>Stale fills\<close>

lemma keeps_refl: "keeps_all_but_cache s s"
  by (simp add: keeps_all_but_cache_def)

lemma keeps_update: "keeps_all_but_cache s (s\<lparr>position_cache := pc, cache_timestamp := ts\<rparr>)"
  by (simp add: keeps_all_but_cache_def)

lemma keeps_trans:
  assumes "keeps_all_but_cache s s'" and "keeps_all_but_cache s' s''"
  shows "keeps_all_but_cache s s''"
proof -
  have a: "s'\<lparr>position_cache := position_cache s, cache_timestamp := cache_timestamp s\<rparr> = s"
    using assms(1) by (simp only: keeps_all_but_cache_def)
  have b: "s''\<lparr>position_cache := position_cache s', cache_timestamp := cache_timestamp s'\<rparr> = s'"
    using assms(2) by (simp only: keeps_all_but_cache_def)
  have "s''\<lparr>position_cache := position_cache s, cache_timestamp := cache_timestamp s\<rparr> =
        (s''\<lparr>position_cache := position_cache s', cache_timestamp := cache_timestamp s'\<rparr>)
           \<lparr>position_cache := position_cache s, cache_timestamp := cache_timestamp s\<rparr>"
    by simp
  also have "\<dots> = s'\<lparr>position_cache := position_cache s, cache_timestamp := cache_timestamp s\<rparr>"
    by (simp only: b)
  also have "\<dots> = s" by (rule a)
  finally show ?thesis by (simp only: keeps_all_but_cache_def)
qed

lemma keeps_stale_update:
  assumes "keeps_all_but_cache s s'"
  shows "keeps_all_but_cache (s\<lparr>stale_executions_filtered := k\<rparr>) (s'\<lparr>stale_executions_filtered := k\<rparr>)"
proof -
  have e: "s'\<lparr>position_cache := position_cache s, cache_timestamp := cache_timestamp s\<rparr> = s"
    using assms by (simp only: keeps_all_but_cache_def)
  have "(s'\<lparr>stale_executions_filtered := k\<rparr>)\<lparr>position_cache := position_cache s, cache_timestamp := cache_timestamp s\<rparr>
        = (s'\<lparr>position_cache := position_cache s, cache_timestamp := cache_timestamp s\<rparr>)\<lparr>stale_executions_filtered := k\<rparr>"
    by simp
  also have "\<dots> = s\<lparr>stale_executions_filtered := k\<rparr>" by (simp only: e)
  finally show ?thesis by (simp add: keeps_all_but_cache_def)
qed

lemma keeps_fields:
  assumes "keeps_all_but_cache s s'"
  shows "suite s' = suite s" "the_rule_engine s' = the_rule_engine s"
    "risk_handler s' = risk_handler s" "enable_risk_rules s' = enable_risk_rules s"
    "counts s' = counts s" "trade_actions s' = trade_actions s"
    "last_confirmed_position s' = last_confirmed_position s"
    "position_flat_timestamp s' = position_flat_timestamp s"
    "ignore_reopen_window s' = ignore_reopen_window s"
    "stale_executions_filtered s' = stale_executions_filtered s"
proof -
  have e: "s'\<lparr>position_cache := position_cache s, cache_timestamp := cache_timestamp s\<rparr> = s"
    using assms by (simp only: keeps_all_but_cache_def)
  show "suite s' = suite s" using arg_cong [OF e, of suite] by simp
  show "the_rule_engine s' = the_rule_engine s" using arg_cong [OF e, of the_rule_engine] by simp
  show "risk_handler s' = risk_handler s" using arg_cong [OF e, of risk_handler] by simp
  show "enable_risk_rules s' = enable_risk_rules s" using arg_cong [OF e, of enable_risk_rules] by simp
  show "counts s' = counts s" using arg_cong [OF e, of counts] by simp
  show "trade_actions s' = trade_actions s" using arg_cong [OF e, of trade_actions] by simp
  show "last_confirmed_position s' = last_confirmed_position s"
    using arg_cong [OF e, of last_confirmed_position] by simp
  show "position_flat_timestamp s' = position_flat_timestamp s"
    using arg_cong [OF e, of position_flat_timestamp] by simp
  show "ignore_reopen_window s' = ignore_reopen_window s"
    using arg_cong [OF e, of ignore_reopen_window] by simp
  show "stale_executions_filtered s' = stale_executions_filtered s"
    using arg_cong [OF e, of stale_executions_filtered] by simp
qed

lemma get_info_frame:
  "keeps_all_but_cache s (fst (snd (get_current_position_info lib now f env s)))"
  by (simp add: get_current_position_info_def Let_def keeps_refl keeps_update
           split: positions_reply.split list.split option.split)

lemma snapshots_frame:
  "keeps_all_but_cache s (fst (snd (snd (snapshots_around_fill lib env s))))"
  by (simp add: snapshots_around_fill_def Let_def case_prod_beta)
     (rule keeps_trans [OF get_info_frame get_info_frame])

lemma on_order_filled_stale:
  assumes "stale_fill lib env s"
  shows "on_order_filled lib env data s =
     ((fst (snd (snd (snapshots_around_fill lib env
          (s\<lparr>counts := (counts s)\<lparr>ec_order_filled := ec_order_filled (counts s) + 1\<rparr>\<rparr>)))))
        \<lparr>stale_executions_filtered := stale_executions_filtered s + 1\<rparr>,
      snd (snd (snd (snapshots_around_fill lib env
          (s\<lparr>counts := (counts s)\<lparr>ec_order_filled := ec_order_filled (counts s) + 1\<rparr>\<rparr>)))) @ stale_log)"
proof -
  let ?s1 = "s\<lparr>counts := (counts s)\<lparr>ec_order_filled := ec_order_filled (counts s) + 1\<rparr>\<rparr>"
  let ?s3 = "fst (snd (snd (snapshots_around_fill lib env ?s1)))"
  have "stale_executions_filtered ?s3 = stale_executions_filtered ?s1"
    by (rule keeps_fields [OF snapshots_frame])
  then have st: "stale_executions_filtered ?s3 = stale_executions_filtered s" by simp
  have "is_stale_after_manual_close lib ?s3 (now_check env)
          (fst (snd (snapshots_around_fill lib env ?s1)))"
    using assms by (simp add: stale_fill_def Let_def case_prod_beta)
  then show ?thesis
    using st by (simp add: on_order_filled_def Let_def case_prod_beta)
qed

lemma on_order_filled_stale_frame:
  assumes "stale_fill lib env s"
  shows "keeps_all_but_cache
           (s\<lparr>counts := (counts s)\<lparr>ec_order_filled := ec_order_filled (counts s) + 1\<rparr>,
              stale_executions_filtered := stale_executions_filtered s + 1\<rparr>)
           (fst (on_order_filled lib env data s))"
  by (simp only: on_order_filled_stale [OF assms] fst_conv)
     (rule keeps_stale_update [OF snapshots_frame])

lemma handler_engine:
  "fst (snd (handler_on_order_filled h ev e)) =
     fst (snd (process_event ''order_filled'' ev (h_api_client h) e))"
  by (simp add: handler_on_order_filled_def Let_def case_prod_beta)

lemma check_one_events:
  "events_processed (fst (snd (check_one ev ts r acc))) = events_processed (fst acc)"
  by (simp add: check_one_def Let_def case_prod_beta)

lemma check_loop_events:
  "events_processed (fst (snd (check_loop ev ts rs acc))) = events_processed (fst acc)"
  by (induction rs arbitrary: acc)
     (simp_all add: check_loop_Cons check_one_events del: check_loop.simps(2))

lemma check_one_stat:
  "rules_checked (fst (snd (check_one ev ts r acc))) = rules_checked (fst acc) + 1"
  by (simp add: check_one_def Let_def case_prod_beta)

lemma check_loop_stat:
  "rules_checked (fst (snd (check_loop ev ts rs acc))) = rules_checked (fst acc) + length rs"
  by (induction rs arbitrary: acc)
     (simp_all add: check_loop_Cons check_one_stat del: check_loop.simps(2))

lemma process_order_filled_stats:
  "events_processed (stats (fst (snd (process_event ''order_filled'' ev api e)))) =
     events_processed (stats e) + 1"
  "rules_checked (stats (fst (snd (process_event ''order_filled'' ev api e)))) =
     rules_checked (stats e) + length (rules e)"
  by (simp_all add: process_event_unfold Let_def check_loop_events check_loop_stat)

lemma risk_check_engine:
  assumes "enable_risk_rules (fst (on_order_filled lib env data s))"
    and "risk_handler (fst (on_order_filled lib env data s)) = Some h"
    and "the_rule_engine (fst (on_order_filled lib env data s)) = Some e"
  shows "fst (on_order_filled_with_risk_check lib env renv data s) =
     (fst (snd (get_current_position_info lib (now_risk renv) True (reply_risk renv)
                  (fst (on_order_filled lib env data s)))))
       \<lparr>the_rule_engine := Some (fst (snd (process_event ''order_filled''
            (risk_event lib env renv data s) (h_api_client h) e)))\<rparr>"
proof -
  let ?s1 = "fst (on_order_filled lib env data s)"
  let ?s2 = "fst (snd (get_current_position_info lib (now_risk renv) True (reply_risk renv) ?s1))"
  have k: "keeps_all_but_cache ?s1 ?s2" by (rule get_info_frame)
  have h2: "risk_handler ?s2 = Some h" using keeps_fields(3) [OF k] assms(2) by simp
  have e2: "the_rule_engine ?s2 = Some e" using keeps_fields(2) [OF k] assms(3) by simp
  show ?thesis
    using assms(1,2) h2 e2
    by (simp add: on_order_filled_with_risk_check_def Let_def case_prod_beta risk_event_def
                  handler_engine)
qed

text \<open>
  The stale test in terms of the listener before the fill: the marker is set, truthy
  and younger than the window at the time of the test, and the snapshot taken after the
  propagation delay shows a nonzero size.
\<close>

lemma stale_fill_iff:
  "stale_fill lib env s =
     (within_reopen_window lib s (now_check env) \<and>
      (case fst (snd (snapshots_around_fill lib env
                  (s\<lparr>counts := (counts s)\<lparr>ec_order_filled := ec_order_filled (counts s) + 1\<rparr>\<rparr>))) of
         None \<Rightarrow> False | Some c \<Rightarrow> \<bar>pi_size c\<bar> > 0))"
proof -
  let ?s1 = "s\<lparr>counts := (counts s)\<lparr>ec_order_filled := ec_order_filled (counts s) + 1\<rparr>\<rparr>"
  let ?s3 = "fst (snd (snd (snapshots_around_fill lib env ?s1)))"
  have "position_flat_timestamp ?s3 = position_flat_timestamp ?s1"
       "ignore_reopen_window ?s3 = ignore_reopen_window ?s1"
    by (rule keeps_fields [OF snapshots_frame])+
  then have "within_reopen_window lib ?s3 (now_check env) =
             within_reopen_window lib s (now_check env)"
    by (simp add: within_reopen_window_def split: option.splits)
  then show ?thesis
    by (simp add: stale_fill_def is_stale_after_manual_close_def Let_def case_prod_beta)
qed

text \<open>
  C1, as amended.  When the fill handler classifies a fill as stale, it changes nothing
  but the event count, the cache entry and the stale counter, which grows by exactly
  one; its effects are those of the two snapshot reads followed by the stale-execution
  log, so no trade is logged; the per-action counters and the confirmed position are
  as before.  The risk check that wraps the handler still runs when risk rules are
  enabled and a handler is present: the engine afterwards is the engine after
  \<open>process_event\<close> on the enriched event of this fill, and the stale counter, the
  per-action counters and the confirmed position are as the fill handler left them.
\<close>

theorem stale_fill_ignored:
  assumes "stale_fill lib env s"
  shows "keeps_all_but_cache
           (s\<lparr>counts := (counts s)\<lparr>ec_order_filled := ec_order_filled (counts s) + 1\<rparr>,
              stale_executions_filtered := stale_executions_filtered s + 1\<rparr>)
           (fst (on_order_filled lib env data s))
     \<and> snd (on_order_filled lib env data s) =
         snd (snd (snd (snapshots_around_fill lib env
           (s\<lparr>counts := (counts s)\<lparr>ec_order_filled := ec_order_filled (counts s) + 1\<rparr>\<rparr>))))
         @ stale_log
     \<and> stale_executions_filtered (fst (on_order_filled lib env data s)) =
         stale_executions_filtered s + 1
     \<and> trade_actions (fst (on_order_filled lib env data s)) = trade_actions s
     \<and> last_confirmed_position (fst (on_order_filled lib env data s)) = last_confirmed_position s
     \<and> (enable_risk_rules s \<and> risk_handler s = Some h \<and> the_rule_engine s = Some e \<longrightarrow>
          the_rule_engine (fst (on_order_filled_with_risk_check lib env renv data s)) =
            Some (fst (snd (process_event ''order_filled'' (risk_event lib env renv data s)
                              (h_api_client h) e)))
          \<and> stale_executions_filtered (fst (on_order_filled_with_risk_check lib env renv data s)) =
              stale_executions_filtered s + 1
          \<and> trade_actions (fst (on_order_filled_with_risk_check lib env renv data s)) =
              trade_actions s
          \<and> last_confirmed_position (fst (on_order_filled_with_risk_check lib env renv data s)) =
              last_confirmed_position s)"
proof -
  let ?s0 = "s\<lparr>counts := (counts s)\<lparr>ec_order_filled := ec_order_filled (counts s) + 1\<rparr>,
               stale_executions_filtered := stale_executions_filtered s + 1\<rparr>"
  let ?s1 = "fst (on_order_filled lib env data s)"
  have k: "keeps_all_but_cache ?s0 ?s1" by (rule on_order_filled_stale_frame [OF assms])
  have fx: "snd (on_order_filled lib env data s) =
         snd (snd (snd (snapshots_around_fill lib env
           (s\<lparr>counts := (counts s)\<lparr>ec_order_filled := ec_order_filled (counts s) + 1\<rparr>\<rparr>))))
         @ stale_log"
    by (simp only: on_order_filled_stale [OF assms] snd_conv)
  have st: "stale_executions_filtered ?s1 = stale_executions_filtered s + 1"
    using keeps_fields(10) [OF k] by simp
  have ta: "trade_actions ?s1 = trade_actions s" using keeps_fields(6) [OF k] by simp
  have lc: "last_confirmed_position ?s1 = last_confirmed_position s"
    using keeps_fields(7) [OF k] by simp
  have risk: "the_rule_engine (fst (on_order_filled_with_risk_check lib env renv data s)) =
            Some (fst (snd (process_event ''order_filled'' (risk_event lib env renv data s)
                              (h_api_client h) e)))
          \<and> stale_executions_filtered (fst (on_order_filled_with_risk_check lib env renv data s)) =
              stale_executions_filtered s + 1
          \<and> trade_actions (fst (on_order_filled_with_risk_check lib env renv data s)) =
              trade_actions s
          \<and> last_confirmed_position (fst (on_order_filled_with_risk_check lib env renv data s)) =
              last_confirmed_position s"
    if r: "enable_risk_rules s" "risk_handler s = Some h" "the_rule_engine s = Some e"
  proof -
    let ?s2 = "fst (snd (get_current_position_info lib (now_risk renv) True (reply_risk renv) ?s1))"
    have 1: "enable_risk_rules ?s1" using keeps_fields(4) [OF k] r(1) by simp
    have 2: "risk_handler ?s1 = Some h" using keeps_fields(3) [OF k] r(2) by simp
    have 3: "the_rule_engine ?s1 = Some e" using keeps_fields(2) [OF k] r(3) by simp
    have w: "fst (on_order_filled_with_risk_check lib env renv data s) =
       ?s2\<lparr>the_rule_engine := Some (fst (snd (process_event ''order_filled''
            (risk_event lib env renv data s) (h_api_client h) e)))\<rparr>"
      by (rule risk_check_engine [OF 1 2 3])
    have k2: "keeps_all_but_cache ?s1 ?s2" by (rule get_info_frame)
    show ?thesis
      using keeps_fields(10) [OF k2] keeps_fields(6) [OF k2] keeps_fields(7) [OF k2] st ta lc
      by (simp add: w)
  qed
  show ?thesis using k fx st ta lc risk by blast
qed

lemma stale_example: "stale_fill example_lib stale_env risk_listener"
  by (simp add: stale_fill_def snapshots_around_fill_def get_current_position_info_def
        is_stale_after_manual_close_def within_reopen_window_def Let_def
        stale_env_def risk_listener_def closed_listener_def connected_listener_def
        new_listener_def position5_env_def size5_update_def example_lib_def)

theorem stale_fill_ignored_witness:
  "stale_executions_filtered (fst (on_order_filled example_lib stale_env fill_data risk_listener)) = 1
   \<and> trade_actions (fst (on_order_filled example_lib stale_env fill_data risk_listener)) =
       trade_actions risk_listener
   \<and> last_confirmed_position (fst (on_order_filled example_lib stale_env fill_data risk_listener)) =
       Some flat_position
   \<and> the_rule_engine (fst (on_order_filled_with_risk_check example_lib stale_env risk_env5
          fill_data risk_listener)) =
       Some (fst (snd (process_event ''order_filled''
                         (risk_event example_lib stale_env risk_env5 fill_data risk_listener)
                         None engine2)))"
  using stale_fill_ignored [OF stale_example, where data = fill_data and h = example_handler
          and e = engine2 and renv = risk_env5]
  by (simp add: risk_listener_def closed_listener_def connected_listener_def new_listener_def
                example_handler_def)

text \<open>
  C1 as stated fails: for the stale fill of the example the wrapped handler has the
  engine process the event and check its one rule.
\<close>

theorem stale_fill_rules_evaluated_counterexample:
  "stale_fill example_lib stale_env risk_listener
   \<and> map_option (\<lambda>e. (events_processed (stats e), rules_checked (stats e)))
        (the_rule_engine risk_listener) = Some (0, 0)
   \<and> map_option (\<lambda>e. (events_processed (stats e), rules_checked (stats e)))
        (the_rule_engine (fst (on_order_filled_with_risk_check example_lib stale_env risk_env5
           fill_data risk_listener))) = Some (1, 1)"
proof -
  have a: "the_rule_engine risk_listener = Some engine2"
    and b: "enable_risk_rules risk_listener" and c: "risk_handler risk_listener = Some example_handler"
    by (simp_all add: risk_listener_def closed_listener_def connected_listener_def new_listener_def)
  have d: "events_processed (stats engine2) = 0" "rules_checked (stats engine2) = 0"
    "length (rules engine2) = 1"
    by (simp_all add: engine2_def new_engine_def zero_stats_def)
  have k: "keeps_all_but_cache
      (risk_listener\<lparr>counts := (counts risk_listener)\<lparr>ec_order_filled :=
                         ec_order_filled (counts risk_listener) + 1\<rparr>,
         stale_executions_filtered := stale_executions_filtered risk_listener + 1\<rparr>)
      (fst (on_order_filled example_lib stale_env fill_data risk_listener))"
    by (rule on_order_filled_stale_frame [OF stale_example])
  have w: "fst (on_order_filled_with_risk_check example_lib stale_env risk_env5 fill_data risk_listener) =
       (fst (snd (get_current_position_info example_lib (now_risk risk_env5) True (reply_risk risk_env5)
          (fst (on_order_filled example_lib stale_env fill_data risk_listener)))))
       \<lparr>the_rule_engine := Some (fst (snd (process_event ''order_filled''
            (risk_event example_lib stale_env risk_env5 fill_data risk_listener)
            (h_api_client example_handler) engine2)))\<rparr>"
  proof (rule risk_check_engine)
    show "enable_risk_rules (fst (on_order_filled example_lib stale_env fill_data risk_listener))"
      using keeps_fields(4) [OF k] b by simp
    show "risk_handler (fst (on_order_filled example_lib stale_env fill_data risk_listener)) =
            Some example_handler"
      using keeps_fields(3) [OF k] c by simp
    show "the_rule_engine (fst (on_order_filled example_lib stale_env fill_data risk_listener)) =
            Some engine2"
      using keeps_fields(2) [OF k] a by simp
  qed
  show ?thesis
    by (simp add: stale_example a w process_order_filled_stats d)
qed

subsection \<open>Position updates after a manual close\<close>









end
